theory Spec2Isabelle
  imports Main "HOL-Library.Signed_Division"
begin

section \<open>Data model\<close>

text \<open>
  The notifier of prometheus-webhook-dingtalk (\<^verbatim>\<open>notifier/notification.go\<close>) renders an
  Alertmanager webhook message into DingTalk notification bodies and posts them.
  A Go \<^verbatim>\<open>[]byte\<close> and a Go \<^verbatim>\<open>string\<close> are both byte sequences; an Isabelle
  \<^typ>\<open>char\<close> is one byte, so both are modelled as \<^typ>\<open>string\<close>.
\<close>

type_synonym bytes = string

text \<open>
  Go errors. \<^verbatim>\<open>errors.Wrap(err, msg)\<close> keeps the cause and adds a message;
  \<^verbatim>\<open>errors.Errorf(format, code)\<close> carries the format and its integer argument.
  \<open>Cause\<close> is an error produced by a collaborator (template engine, encoder, network,
  decoder).
\<close>

datatype error = Cause string | Wrap error string | Errorf string int

text \<open>
  Modelled from the spec: the declarations of package \<^verbatim>\<open>models\<close> and \<^verbatim>\<open>config\<close>
  (\<^verbatim>\<open>WebhookMessage\<close>, \<^verbatim>\<open>DingTalkNotification\<close>, \<^verbatim>\<open>DingTalkNotificationResponse\<close>,
  \<^verbatim>\<open>Target\<close>) are not part of the sources at hand; the records below follow the data
  model of the specification and the field names used by \<^verbatim>\<open>notification.go\<close>.
  A Go pointer field that may be \<^verbatim>\<open>nil\<close> is an \<open>option\<close>.
\<close>

type_synonym KV = "(string \<times> string) list"

record Alert =
  AlertStatus :: string
  Labels :: KV
  Annotations :: KV
  StartsAt :: int
  EndsAt :: int

record WebhookMessage =
  Status :: string
  GroupLabels :: KV
  CommonLabels :: KV
  Alerts :: "Alert list"

record DingTalkNotificationMarkdown =
  Title :: string
  Text :: string

record DingTalkNotificationAt =
  IsAtAll :: bool
  AtMobiles :: "string list"

record DingTalkNotification =
  MessageType :: string
  Markdown :: "DingTalkNotificationMarkdown option"
  At :: "DingTalkNotificationAt option"

record DingTalkNotificationResponse =
  ErrorCode :: int
  ErrorMessage :: string

record URL =
  Scheme :: string
  Host :: string
  Path :: string
  RawQuery :: string
  Fragment :: string

record TargetMessage =
  MessageTitle :: string
  MessageText :: string

record TargetMention =
  MentionAll :: bool
  MentionMobiles :: "string list"

record Target =
  TargetURL :: URL
  Secret :: string
  Message :: "TargetMessage option"
  Mention :: "TargetMention option"

text \<open>
  The template engine (\<^verbatim>\<open>template.Template\<close>, method \<^verbatim>\<open>ExecuteTextString\<close>) is a
  collaborator: given a template text and the message it returns the rendered text or an
  error. Rendering is a function of its two arguments.
\<close>

type_synonym Template = "string \<Rightarrow> WebhookMessage \<Rightarrow> error + string"

record DingNotificationBuilder =
  tmpl :: Template
  target :: Target
  titleTpl :: string
  textTpl :: string

text \<open>
  The Go standard library functions the notifier calls are parameters of the model:
  \<^verbatim>\<open>json.Marshal\<close> on a notification, \<^verbatim>\<open>json.Decoder.Decode\<close> into a response,
  HMAC-SHA256 (\<^verbatim>\<open>hmac.New(sha256.New, key)\<close>, \<^verbatim>\<open>Write\<close>, \<^verbatim>\<open>Sum\<close>),
  \<^verbatim>\<open>base64.StdEncoding.EncodeToString\<close>, the clock \<^verbatim>\<open>time.Now().UnixNano()\<close>,
  \<^verbatim>\<open>url.ParseQuery\<close> (as used by \<^verbatim>\<open>URL.Query\<close>), \<^verbatim>\<open>Values.Encode\<close>, \<^verbatim>\<open>URL.String\<close>
  and \<^verbatim>\<open>url.Parse\<close> (as used by \<^verbatim>\<open>http.NewRequest\<close>).
  \<^verbatim>\<open>url.Values\<close> is a Go map from keys to lists of values.
\<close>

type_synonym Values = "string \<rightharpoonup> string list"

record env =
  json_Marshal :: "DingTalkNotification \<Rightarrow> error + bytes"
  json_Decode :: "bytes \<Rightarrow> error + DingTalkNotificationResponse"
  hmac_sha256 :: "bytes \<Rightarrow> bytes \<Rightarrow> bytes"
  base64_EncodeToString :: "bytes \<Rightarrow> string"
  time_Now_UnixNano :: int
  url_ParseQuery :: "string \<Rightarrow> Values"
  Values_Encode :: "Values \<Rightarrow> string"
  URL_String :: "URL \<Rightarrow> string"
  url_Parse :: "string \<Rightarrow> error + URL"

section \<open>The notification builder\<close>

definition MAX_MESSAGE_LENGTH :: nat where
  "MAX_MESSAGE_LENGTH = 20000"

text \<open>
  \<^verbatim>\<open>NewDingNotificationBuilder\<close>: the templates of the target win over the default
  message of the configuration (\<^verbatim>\<open>conf.GetDefaultMessage()\<close>, taken as the argument
  \<open>defaultMessage\<close>).
\<close>

definition NewDingNotificationBuilder ::
    "Template \<Rightarrow> TargetMessage \<Rightarrow> Target \<Rightarrow> DingNotificationBuilder" where
  "NewDingNotificationBuilder t defaultMessage tgt =
     (let titleTpl0 = MessageTitle defaultMessage;
          textTpl0 = MessageText defaultMessage;
          (titleTpl1, textTpl1) =
            (case Message tgt of
               None \<Rightarrow> (titleTpl0, textTpl0)
             | Some msg \<Rightarrow> (MessageTitle msg, MessageText msg))
      in \<lparr>tmpl = t, target = tgt, titleTpl = titleTpl1, textTpl = textTpl1\<rparr>)"

definition renderTitle :: "DingNotificationBuilder \<Rightarrow> WebhookMessage \<Rightarrow> error + string" where
  "renderTitle r data = tmpl r (titleTpl r) data"

definition renderText :: "DingNotificationBuilder \<Rightarrow> WebhookMessage \<Rightarrow> error + string" where
  "renderText r data = tmpl r (textTpl r) data"

definition Build ::
    "DingNotificationBuilder \<Rightarrow> WebhookMessage \<Rightarrow> error + DingTalkNotification" where
  "Build r m =
     (case renderTitle r m of
        Inl err \<Rightarrow> Inl err
      | Inr title \<Rightarrow>
          (case renderText r m of
             Inl err \<Rightarrow> Inl err
           | Inr content \<Rightarrow>
               (let notification =
                      \<lparr>MessageType = ''markdown'',
                       Markdown = Some \<lparr>Title = title, Text = content\<rparr>,
                       At = None\<rparr>;
                    notification' =
                      (case Mention (target r) of
                         None \<Rightarrow> notification
                       | Some mn \<Rightarrow>
                           notification\<lparr>At := Some \<lparr>IsAtAll = MentionAll mn,
                                                    AtMobiles = MentionMobiles mn\<rparr>\<rparr>)
                in Inr notification')))"

definition ResolvedTmpl ::
    "env \<Rightarrow> DingNotificationBuilder \<Rightarrow> WebhookMessage \<Rightarrow> error + (bytes \<times> nat)" where
  "ResolvedTmpl e r m =
     (case renderTitle r m of
        Inl err \<Rightarrow> Inl err
      | Inr title \<Rightarrow>
          (case renderText r m of
             Inl err \<Rightarrow> Inl err
           | Inr content \<Rightarrow>
               (let notification =
                      \<lparr>MessageType = ''markdown'',
                       Markdown = Some \<lparr>Title = title, Text = content\<rparr>,
                       At = None\<rparr>;
                    notification' =
                      (case Mention (target r) of
                         None \<Rightarrow> notification
                       | Some mn \<Rightarrow>
                           notification\<lparr>At := Some \<lparr>IsAtAll = MentionAll mn,
                                                    AtMobiles = MentionMobiles mn\<rparr>\<rparr>)
                in case json_Marshal e notification' of
                     Inl err \<Rightarrow> Inl (Wrap err ''error encoding DingTalk request'')
                   | Inr body \<Rightarrow> Inr (body, length body))))"

section \<open>The batch splitter\<close>

text \<open>
  The Go slice expression \<^verbatim>\<open>alerts[i:j]\<close>. In \<^verbatim>\<open>Buildv2\<close> it is evaluated only with
  \<open>i < j \<le> len(alerts)\<close> (lemma \<open>candidate_ranges_bounds\<close> below), where it does not panic.
\<close>

definition slice :: "'a list \<Rightarrow> nat \<Rightarrow> nat \<Rightarrow> 'a list" where
  "slice xs i j = take (j - i) (drop i xs)"

text \<open>
  The variables the loop of \<^verbatim>\<open>Buildv2\<close> updates: the message \<open>m\<close> (its \<^verbatim>\<open>Alerts\<close> field
  is reassigned in every iteration), \<open>sendDatas\<close>, \<open>lastIndex\<close> and \<open>lastData\<close>.
\<close>

record split_state =
  msg :: WebhookMessage
  sendDatas :: "bytes list"
  lastIndex :: nat
  lastData :: bytes

text \<open>
  \<^verbatim>\<open>for index := 1; index <= len(alerts); index++ { ... }\<close>. The result is the error
  of an early \<^verbatim>\<open>return nil, err\<close> (if any) and the variables at that moment.
  The \<^verbatim>\<open>data\<close> declared inside the loop body is local to one iteration.
\<close>

function Buildv2_loop ::
    "env \<Rightarrow> DingNotificationBuilder \<Rightarrow> Alert list \<Rightarrow> nat \<Rightarrow> split_state
       \<Rightarrow> error option \<times> split_state" where
  "Buildv2_loop e r alerts index s =
     (if index \<le> length alerts then
        (let m' = (msg s)\<lparr>Alerts := slice alerts (lastIndex s) index\<rparr>;
             s' = s\<lparr>msg := m'\<rparr>
         in case ResolvedTmpl e r m' of
              Inl err \<Rightarrow> (Some err, s')
            | Inr (data, l) \<Rightarrow>
                if l < MAX_MESSAGE_LENGTH then
                  Buildv2_loop e r alerts (index + 1) (s'\<lparr>lastData := data\<rparr>)
                else if length (lastData s') \<noteq> 0 then
                  Buildv2_loop e r alerts (index + 1)
                    (s'\<lparr>sendDatas := sendDatas s' @ [lastData s'],
                        lastIndex := index - 1,
                        lastData := []\<rparr>)
                else
                  Buildv2_loop e r alerts (index + 1)
                    (s'\<lparr>sendDatas := sendDatas s' @ [data],
                        lastIndex := index\<rparr>))
      else (None, s))"
  by pat_completeness auto
termination
  by (relation "measure (\<lambda>(e, r, alerts, index, s). Suc (length alerts) - index)") auto

declare Buildv2_loop.simps [simp del]

text \<open>
  \<^verbatim>\<open>Buildv2\<close> returns the batches or an error, and leaves the message it was given
  (a pointer) in the state returned as second component. The \<^verbatim>\<open>data\<close> appended after
  the loop is the variable of the function scope, assigned once by the first call of
  \<^verbatim>\<open>ResolvedTmpl\<close>.
\<close>

definition Buildv2 ::
    "env \<Rightarrow> DingNotificationBuilder \<Rightarrow> WebhookMessage
       \<Rightarrow> (error + bytes list) \<times> WebhookMessage" where
  "Buildv2 e r m =
     (case ResolvedTmpl e r m of
        Inl err \<Rightarrow> (Inl err, m)
      | Inr (data, oriLen) \<Rightarrow>
          if oriLen < MAX_MESSAGE_LENGTH then (Inr ([] @ [data]), m)
          else
            (let alerts = Alerts m;
                 (err, s) = Buildv2_loop e r alerts 1
                              \<lparr>msg = m, sendDatas = [], lastIndex = 0, lastData = []\<rparr>
             in case err of
                  Some err' \<Rightarrow> (Inl err', msg s)
                | None \<Rightarrow>
                    if length (lastData s) \<noteq> 0
                    then (Inr (sendDatas s @ [data]), msg s)
                    else (Inr (sendDatas s), msg s)))"

text \<open>
  The candidate ranges \<open>(lastIndex, index)\<close> that the loop of \<^verbatim>\<open>Buildv2\<close> assigns to
  \<^verbatim>\<open>m.Alerts\<close> and renders, in the order of the iterations, for the message \<open>m\<close> the
  function was called with. The scan follows the same three branches as the loop; an
  iteration whose rendering fails is the last one.
\<close>

function candidate_ranges ::
    "env \<Rightarrow> DingNotificationBuilder \<Rightarrow> WebhookMessage \<Rightarrow> Alert list \<Rightarrow> nat \<Rightarrow> nat \<Rightarrow> bytes
       \<Rightarrow> (nat \<times> nat) list" where
  "candidate_ranges e r m alerts index lastIdx lastDat =
     (if index \<le> length alerts then
        (lastIdx, index) #
          (case ResolvedTmpl e r (m\<lparr>Alerts := slice alerts lastIdx index\<rparr>) of
             Inl err \<Rightarrow> []
           | Inr (data, l) \<Rightarrow>
               if l < MAX_MESSAGE_LENGTH then
                 candidate_ranges e r m alerts (index + 1) lastIdx data
               else if length lastDat \<noteq> 0 then
                 candidate_ranges e r m alerts (index + 1) (index - 1) []
               else
                 candidate_ranges e r m alerts (index + 1) index lastDat)
      else [])"
  by pat_completeness auto
termination
  by (relation "measure (\<lambda>(e, r, m, alerts, index, lastIdx, lastDat). Suc (length alerts) - index)")
     auto

declare candidate_ranges.simps [simp del]

section \<open>Signing and transport\<close>

text \<open>
  \<^verbatim>\<open>strconv.FormatInt(i, 10)\<close>: the decimal digits of \<open>i\<close>, with a minus sign for a
  negative number.
\<close>

definition digit :: "nat \<Rightarrow> char" where
  "digit d = ''0123456789'' ! d"

fun digits10 :: "nat \<Rightarrow> string" where
  "digits10 n =
     (if n < 10 then [digit n]
      else digits10 (n div 10) @ [digit (n mod 10)])"

declare digits10.simps [simp del]

definition FormatInt :: "int \<Rightarrow> string" where
  "FormatInt i = (if i < 0 then CHR ''-'' # digits10 (nat (- i)) else digits10 (nat i))"

text \<open>
  An HTTP request as \<^verbatim>\<open>http.NewRequest(method, url, body)\<close> builds it: \<open>ReqURL\<close> is the
  URL text the request is built from. \<^verbatim>\<open>NewRequest\<close> fails when the text does not
  parse as a URL.
\<close>

record HttpRequest =
  Method :: string
  ReqURL :: string
  Header :: "(string \<times> string) list"
  ReqBody :: bytes

record HttpResponse =
  StatusCode :: int
  Body :: bytes

text \<open>\<^verbatim>\<open>httpClient.Do\<close>: the network answers a request with a response or an error.\<close>

type_synonym HttpClient = "HttpRequest \<Rightarrow> error + HttpResponse"

definition http_NewRequest :: "env \<Rightarrow> string \<Rightarrow> string \<Rightarrow> bytes \<Rightarrow> error + HttpRequest" where
  "http_NewRequest e method rawurl body =
     (case url_Parse e rawurl of
        Inl err \<Rightarrow> Inl err
      | Inr u \<Rightarrow> Inr \<lparr>Method = method, ReqURL = rawurl, Header = [], ReqBody = body\<rparr>)"

text \<open>\<^verbatim>\<open>Header.Set(key, value)\<close> replaces the values of the key.\<close>

definition Header_Set :: "(string \<times> string) list \<Rightarrow> string \<Rightarrow> string \<Rightarrow> (string \<times> string) list" where
  "Header_Set h k v = (k, v) # filter (\<lambda>kv. fst kv \<noteq> k) h"

text \<open>\<^verbatim>\<open>Values.Set(key, value)\<close>: \<^verbatim>\<open>v[key] = []string{value}\<close>.\<close>

definition Values_Set :: "Values \<Rightarrow> string \<Rightarrow> string \<Rightarrow> Values" where
  "Values_Set v key val = v(key \<mapsto> [val])"

text \<open>
  What a call of \<^verbatim>\<open>SendNotification\<close> or \<^verbatim>\<open>SendNotificationV2\<close> does: the value it
  returns, the request it handed to the HTTP client (if it got that far), and whether the
  deferred function has drained (\<^verbatim>\<open>io.Copy(ioutil.Discard, resp.Body)\<close>) and closed the
  response body.
\<close>

record outcome =
  result :: "error + DingTalkNotificationResponse"
  posted :: "HttpRequest option"
  body_drained :: bool
  body_closed :: bool

definition SendNotification ::
    "env \<Rightarrow> DingTalkNotification \<Rightarrow> HttpClient \<Rightarrow> Target \<Rightarrow> outcome" where
  "SendNotification e notification httpClient tgt =
     (let targetURL = TargetURL tgt;
          targetURL' =
            (if Secret tgt \<noteq> [] then
               (let timestamp = FormatInt (time_Now_UnixNano e sdiv 1000000);
                    stringToSign = timestamp @ [CHR 0x0A] @ Secret tgt;
                    signature =
                      base64_EncodeToString e (hmac_sha256 e (Secret tgt) stringToSign);
                    qs = url_ParseQuery e (RawQuery targetURL);
                    qs' = Values_Set qs ''timestamp'' timestamp;
                    qs'' = Values_Set qs' ''sign'' signature
                in targetURL\<lparr>RawQuery := Values_Encode e qs''\<rparr>)
             else targetURL)
      in case json_Marshal e notification of
           Inl err \<Rightarrow>
             \<lparr>result = Inl (Wrap err ''error encoding DingTalk request''), posted = None,
              body_drained = False, body_closed = False\<rparr>
         | Inr body \<Rightarrow>
             (case http_NewRequest e ''POST'' (URL_String e targetURL') body of
                Inl err \<Rightarrow>
                  \<lparr>result = Inl (Wrap err ''error building DingTalk request''), posted = None,
                   body_drained = False, body_closed = False\<rparr>
              | Inr httpReq0 \<Rightarrow>
                  (let httpReq = httpReq0\<lparr>Header :=
                         Header_Set (Header httpReq0) ''Content-Type'' ''application/json''\<rparr>
                   in case httpClient httpReq of
                        Inl err \<Rightarrow>
                          \<lparr>result = Inl (Wrap err ''error sending notification to DingTalk''),
                           posted = Some httpReq,
                           body_drained = False, body_closed = False\<rparr>
                      | Inr resp \<Rightarrow>
                          \<lparr>result =
                             (if StatusCode resp \<noteq> 200 then
                                Inl (Errorf ''unacceptable response code %d'' (StatusCode resp))
                              else
                                (case json_Decode e (Body resp) of
                                   Inl err \<Rightarrow>
                                     Inl (Wrap err ''error decoding response from DingTalk'')
                                 | Inr robotResp \<Rightarrow> Inr robotResp)),
                           posted = Some httpReq,
                           body_drained = True, body_closed = True\<rparr>)))"

definition SendNotificationV2 :: "env \<Rightarrow> bytes \<Rightarrow> HttpClient \<Rightarrow> Target \<Rightarrow> outcome" where
  "SendNotificationV2 e body httpClient tgt =
     (let targetURL = TargetURL tgt
      in case http_NewRequest e ''POST'' (URL_String e targetURL) body of
           Inl err \<Rightarrow>
             \<lparr>result = Inl (Wrap err ''error building DingTalk request''), posted = None,
              body_drained = False, body_closed = False\<rparr>
         | Inr httpReq0 \<Rightarrow>
             (let httpReq = httpReq0\<lparr>Header :=
                    Header_Set (Header httpReq0) ''Content-Type'' ''application/json''\<rparr>
              in case httpClient httpReq of
                   Inl err \<Rightarrow>
                     \<lparr>result = Inl (Wrap err ''error sending notification to DingTalk''),
                      posted = Some httpReq,
                      body_drained = False, body_closed = False\<rparr>
                 | Inr resp \<Rightarrow>
                     \<lparr>result =
                        (if StatusCode resp \<noteq> 200 then
                           Inl (Errorf ''unacceptable response code %d'' (StatusCode resp))
                         else
                           (case json_Decode e (Body resp) of
                              Inl err \<Rightarrow> Inl (Wrap err ''error decoding response from DingTalk'')
                            | Inr robotResp \<Rightarrow> Inr robotResp)),
                      posted = Some httpReq,
                      body_drained = True, body_closed = True\<rparr>))"

text \<open>
  The URL that \<^verbatim>\<open>SendNotification\<close> holds in \<^verbatim>\<open>targetURL\<close> after its signing block.
\<close>

definition signed_targetURL :: "env \<Rightarrow> Target \<Rightarrow> URL" where
  "signed_targetURL e tgt =
     (if Secret tgt \<noteq> [] then
        (TargetURL tgt)\<lparr>RawQuery := Values_Encode e
           ((url_ParseQuery e (RawQuery (TargetURL tgt)))
              (''timestamp'' \<mapsto> [FormatInt (time_Now_UnixNano e sdiv 1000000)],
               ''sign'' \<mapsto> [base64_EncodeToString e (hmac_sha256 e (Secret tgt)
                   (FormatInt (time_Now_UnixNano e sdiv 1000000) @ [CHR 0x0A] @ Secret tgt))]))\<rparr>
      else TargetURL tgt)"

section \<open>A concrete setting\<close>

text \<open>
  A small template engine, encoder and network for evaluating the functions on concrete
  messages. The title template renders a fixed word and the text template the
  \<open>description\<close> annotations of the alerts one after the other; the encoder writes the
  fields of the notification in the order of the JSON body (quoting left out).
\<close>

definition description :: "Alert \<Rightarrow> string" where
  "description a = (case map_of (Annotations a) ''description'' of None \<Rightarrow> [] | Some d \<Rightarrow> d)"

definition scenario_tmpl :: Template where
  "scenario_tmpl tpl m =
     (if tpl = ''title'' then Inr ''alerts''
      else if tpl = ''text'' then Inr (concat (map description (Alerts m)))
      else Inl (Cause ''template not defined''))"

definition scenario_Marshal :: "DingTalkNotification \<Rightarrow> error + bytes" where
  "scenario_Marshal n =
     (case Markdown n of
        None \<Rightarrow> Inl (Cause ''no markdown'')
      | Some md \<Rightarrow>
          Inr (''{msgtype:'' @ MessageType n @ '',markdown:{title:'' @ Title md
               @ '',text:'' @ Text md @ ''}}''))"

definition scenario_env :: env where
  "scenario_env =
     \<lparr>json_Marshal = scenario_Marshal,
      json_Decode =
        (\<lambda>b. if b = ''{errcode:0,errmsg:ok}'' then Inr \<lparr>ErrorCode = 0, ErrorMessage = ''ok''\<rparr>
              else Inl (Cause ''invalid character'')),
      hmac_sha256 = (\<lambda>k d. ''hmac('' @ k @ '','' @ d @ '')''),
      base64_EncodeToString = (\<lambda>b. ''base64('' @ b @ '')''),
      time_Now_UnixNano = 1000000000,
      url_ParseQuery = (\<lambda>q. if q = [] then Map.empty else [''access_token'' \<mapsto> [q]]),
      Values_Encode =
        (\<lambda>v. concat (map (\<lambda>k. case v k of None \<Rightarrow> [] | Some vs \<Rightarrow> k @ ''='' @ concat vs @ ''&'')
                         [''access_token'', ''sign'', ''timestamp''])),
      URL_String = (\<lambda>u. Scheme u @ ''://'' @ Host u @ Path u @ ''?'' @ RawQuery u),
      url_Parse =
        (\<lambda>s. if s = [] then Inl (Cause ''empty url'')
              else Inr \<lparr>Scheme = [], Host = [], Path = s, RawQuery = [], Fragment = []\<rparr>)\<rparr>"

definition big_alert :: "char \<Rightarrow> nat \<Rightarrow> Alert" where
  "big_alert c n =
     \<lparr>AlertStatus = ''firing'', Labels = [(''alertname'', [c])],
      Annotations = [(''description'', replicate n c)], StartsAt = 0, EndsAt = 0\<rparr>"

definition scenario_target :: Target where
  "scenario_target =
     \<lparr>TargetURL = \<lparr>Scheme = ''https'', Host = ''oapi.dingtalk.com'', Path = ''/robot/send'',
                   RawQuery = ''xyz'', Fragment = []\<rparr>,
      Secret = [], Message = None, Mention = None\<rparr>"

definition scenario_builder :: DingNotificationBuilder where
  "scenario_builder =
     \<lparr>tmpl = scenario_tmpl, target = scenario_target, titleTpl = ''title'', textTpl = ''text''\<rparr>"

definition scenario_msg :: "Alert list \<Rightarrow> WebhookMessage" where
  "scenario_msg as = \<lparr>Status = ''firing'', GroupLabels = [], CommonLabels = [], Alerts = as\<rparr>"

definition scenario_client :: "int \<Rightarrow> bytes \<Rightarrow> HttpClient" where
  "scenario_client code b req = Inr \<lparr>StatusCode = code, Body = b\<rparr>"

definition scenario_notification :: DingTalkNotification where
  "scenario_notification =
     \<lparr>MessageType = ''markdown'', Markdown = Some \<lparr>Title = ''alerts'', Text = ''aaa''\<rparr>,
      At = None\<rparr>"

section \<open>Properties of the builder\<close>

lemmas scenario_simps =
  scenario_env_def scenario_Marshal_def scenario_tmpl_def scenario_builder_def scenario_msg_def
  scenario_target_def big_alert_def description_def ResolvedTmpl_def renderTitle_def
  renderText_def MAX_MESSAGE_LENGTH_def slice_def

text \<open>\<^verbatim>\<open>ResolvedTmpl\<close> is \<^verbatim>\<open>Build\<close> followed by \<^verbatim>\<open>json.Marshal\<close>.\<close>

lemma ResolvedTmpl_Build:
  "ResolvedTmpl e r m =
     (case Build r m of
        Inl err \<Rightarrow> Inl err
      | Inr n \<Rightarrow>
          (case json_Marshal e n of
             Inl err \<Rightarrow> Inl (Wrap err ''error encoding DingTalk request'')
           | Inr body \<Rightarrow> Inr (body, length body)))"
  by (simp add: ResolvedTmpl_def Build_def Let_def split: sum.splits option.splits)



section \<open>Properties of the batch splitter\<close>

text \<open>
  Claim C3. A message whose full serialized rendering is shorter than 20000 bytes is not
  split: \<^verbatim>\<open>Buildv2\<close> returns exactly one batch, the bytes that \<^verbatim>\<open>json.Marshal\<close> gives
  for the notification that \<^verbatim>\<open>Build\<close> returns, and leaves the message as it was.
\<close>

theorem Buildv2_no_split:
  assumes "ResolvedTmpl e r m = Inr (data, l)" and "length data < 20000"
  shows "Buildv2 e r m = (Inr [data], m)
         \<and> (\<exists>n. Build r m = Inr n \<and> json_Marshal e n = Inr data)"
proof -
  from assms(1) obtain n where n: "Build r m = Inr n" "json_Marshal e n = Inr data"
    and l: "l = length data"
    by (auto simp: ResolvedTmpl_Build split: sum.splits)
  from assms l have "Buildv2 e r m = (Inr [data], m)"
    by (simp add: Buildv2_def MAX_MESSAGE_LENGTH_def)
  with n show ?thesis by blast
qed

theorem Buildv2_no_split_witness:
  "ResolvedTmpl scenario_env scenario_builder
       (scenario_msg [big_alert CHR ''a'' 200, big_alert CHR ''b'' 200])
     = Inr (''{msgtype:markdown,markdown:{title:alerts,text:''
              @ replicate 200 CHR ''a'' @ replicate 200 CHR ''b'' @ ''}}'', 448)
   \<and> Buildv2 scenario_env scenario_builder
       (scenario_msg [big_alert CHR ''a'' 200, big_alert CHR ''b'' 200])
     = (Inr [''{msgtype:markdown,markdown:{title:alerts,text:''
              @ replicate 200 CHR ''a'' @ replicate 200 CHR ''b'' @ ''}}''],
        scenario_msg [big_alert CHR ''a'' 200, big_alert CHR ''b'' 200])"
proof -
  have h: "ResolvedTmpl scenario_env scenario_builder
       (scenario_msg [big_alert CHR ''a'' 200, big_alert CHR ''b'' 200])
     = Inr (''{msgtype:markdown,markdown:{title:alerts,text:''
              @ replicate 200 CHR ''a'' @ replicate 200 CHR ''b'' @ ''}}'', 448)"
    by (simp add: scenario_simps)
  show ?thesis using h Buildv2_no_split [OF h] by simp
qed

text \<open>
  A message with a single alert whose rendering reaches the limit: the loop runs once,
  renders the same message again and emits that rendering as the only batch.
\<close>

lemma Buildv2_single_oversized:
  assumes "Alerts m = [a]" and "ResolvedTmpl e r m = Inr (data, l)" and "\<not> l < MAX_MESSAGE_LENGTH"
  shows "Buildv2 e r m = (Inr [data], m)"
proof -
  have m: "m\<lparr>Alerts := slice [a] 0 (Suc 0)\<rparr> = m"
    using assms(1) by (simp add: slice_def)
  show ?thesis
    using assms by (simp add: Buildv2_def Buildv2_loop.simps m)
qed

lemma Buildv2_single_alert_25000:
  "Buildv2 scenario_env scenario_builder (scenario_msg [big_alert CHR ''a'' 24952])
     = (Inr [''{msgtype:markdown,markdown:{title:alerts,text:''
              @ replicate 24952 CHR ''a'' @ ''}}''],
        scenario_msg [big_alert CHR ''a'' 24952])
   \<and> length (''{msgtype:markdown,markdown:{title:alerts,text:''
              @ replicate 24952 CHR ''a'' @ ''}}'') = 25000"
  by (simp add: Buildv2_def Buildv2_loop.simps scenario_simps)

text \<open>
  Whatever the templates are: when the scan ends with a remembered rendering, the batch
  appended last is the rendering of the full message.
\<close>

lemma Buildv2_flush_appends_full_rendering:
  assumes "ResolvedTmpl e r m = Inr (data, l)" and "\<not> l < MAX_MESSAGE_LENGTH"
    and "Buildv2_loop e r (Alerts m) 1 \<lparr>msg = m, sendDatas = [], lastIndex = 0, lastData = []\<rparr>
           = (None, s)"
    and "lastData s \<noteq> []"
  shows "fst (Buildv2 e r m) = Inr (sendDatas s @ [data])"
  using assms by (simp add: Buildv2_def)

text \<open>
  Whatever the templates are: three alerts of which the first two fit together and all
  three do not give one batch, the rendering of the first two.
\<close>

lemma Buildv2_three_alerts:
  assumes "Alerts m = [a, b, c]"
    and "ResolvedTmpl e r m = Inr (d3, l3)" and "\<not> l3 < MAX_MESSAGE_LENGTH"
    and "ResolvedTmpl e r (m\<lparr>Alerts := [a]\<rparr>) = Inr (d1, l1)" and "l1 < MAX_MESSAGE_LENGTH"
    and "ResolvedTmpl e r (m\<lparr>Alerts := [a, b]\<rparr>) = Inr (d2, l2)" and "l2 < MAX_MESSAGE_LENGTH"
    and "d2 \<noteq> []"
  shows "fst (Buildv2 e r m) = Inr [d2]"
proof -
  have m3: "m\<lparr>Alerts := [a, b, c]\<rparr> = m"
    using assms(1) by simp
  have "Buildv2_loop e r [a, b, c] 1 \<lparr>msg = m, sendDatas = [], lastIndex = 0, lastData = []\<rparr>
          = (None, \<lparr>msg = m, sendDatas = [d2], lastIndex = 2, lastData = []\<rparr>)"
    using assms(2-) by (simp add: Buildv2_loop.simps slice_def m3)
  with assms(1-3) show ?thesis
    by (simp add: Buildv2_def)
qed

text \<open>
  Claim C1 (the batches cover the alerts exactly once) does not hold of the code.
  Three alerts of 7000 bytes each: the renderings of the first one and of the first two
  fit, the rendering of all three (21048 bytes) does not. At index 3 the loop emits the
  remembered rendering of the first two alerts, sets \<open>lastIndex\<close> to 2 and empties
  \<open>lastData\<close>; the loop then ends, nothing is flushed, and the third alert is in no
  batch.
\<close>

theorem Buildv2_drops_trailing_alert:
  "ResolvedTmpl scenario_env scenario_builder
       (scenario_msg [big_alert CHR ''a'' 7000, big_alert CHR ''b'' 7000])
     = Inr (''{msgtype:markdown,markdown:{title:alerts,text:''
              @ replicate 7000 CHR ''a'' @ replicate 7000 CHR ''b'' @ ''}}'', 14048)
   \<and> ResolvedTmpl scenario_env scenario_builder (scenario_msg [big_alert CHR ''c'' 7000])
     = Inr (''{msgtype:markdown,markdown:{title:alerts,text:''
              @ replicate 7000 CHR ''c'' @ ''}}'', 7048)
   \<and> Buildv2 scenario_env scenario_builder
       (scenario_msg [big_alert CHR ''a'' 7000, big_alert CHR ''b'' 7000, big_alert CHR ''c'' 7000])
     = (Inr [''{msgtype:markdown,markdown:{title:alerts,text:''
              @ replicate 7000 CHR ''a'' @ replicate 7000 CHR ''b'' @ ''}}''],
        scenario_msg [big_alert CHR ''a'' 7000, big_alert CHR ''b'' 7000, big_alert CHR ''c'' 7000])"
  by (simp add: Buildv2_def Buildv2_loop.simps scenario_simps)

text \<open>
  Claim C2 (the final flush appends the last remembered best-fit rendering) does not hold
  of the code. Four alerts of 7000 bytes each: the loop ends with \<open>lastData\<close> holding the
  rendering of the third and fourth alert, and \<^verbatim>\<open>Buildv2\<close> appends the rendering of the
  full message (all four alerts, 28048 bytes), which the variable \<^verbatim>\<open>data\<close> of the
  function scope still holds.
\<close>

theorem Buildv2_flushes_full_rendering:
  "Buildv2_loop scenario_env scenario_builder
       [big_alert CHR ''a'' 7000, big_alert CHR ''b'' 7000,
        big_alert CHR ''c'' 7000, big_alert CHR ''d'' 7000] 1
       \<lparr>msg = scenario_msg [big_alert CHR ''a'' 7000, big_alert CHR ''b'' 7000,
                            big_alert CHR ''c'' 7000, big_alert CHR ''d'' 7000],
        sendDatas = [], lastIndex = 0, lastData = []\<rparr>
     = (None,
        \<lparr>msg = scenario_msg [big_alert CHR ''c'' 7000, big_alert CHR ''d'' 7000],
         sendDatas = [''{msgtype:markdown,markdown:{title:alerts,text:''
                        @ replicate 7000 CHR ''a'' @ replicate 7000 CHR ''b'' @ ''}}''],
         lastIndex = 2,
         lastData = ''{msgtype:markdown,markdown:{title:alerts,text:''
                        @ replicate 7000 CHR ''c'' @ replicate 7000 CHR ''d'' @ ''}}''\<rparr>)
   \<and> fst (Buildv2 scenario_env scenario_builder
       (scenario_msg [big_alert CHR ''a'' 7000, big_alert CHR ''b'' 7000,
                      big_alert CHR ''c'' 7000, big_alert CHR ''d'' 7000]))
     = Inr [''{msgtype:markdown,markdown:{title:alerts,text:''
              @ replicate 7000 CHR ''a'' @ replicate 7000 CHR ''b'' @ ''}}'',
            ''{msgtype:markdown,markdown:{title:alerts,text:''
              @ replicate 7000 CHR ''a'' @ replicate 7000 CHR ''b''
              @ replicate 7000 CHR ''c'' @ replicate 7000 CHR ''d'' @ ''}}'']"
  by (simp add: Buildv2_def Buildv2_loop.simps scenario_simps)

text \<open>
  Claim C4 (a batch of 20000 bytes or more is the rendering of exactly one alert) does not
  hold of the code. Three alerts of 12000 bytes each, every one of which fits alone:
  after the cut at index 2 the next candidate is the range of the second and third
  alert, its rendering (24048 bytes) does not fit, nothing is remembered, and it is
  emitted as a batch of two alerts.
\<close>

theorem Buildv2_oversized_batch_of_two:
  "ResolvedTmpl scenario_env scenario_builder (scenario_msg [big_alert CHR ''b'' 12000])
     = Inr (''{msgtype:markdown,markdown:{title:alerts,text:''
              @ replicate 12000 CHR ''b'' @ ''}}'', 12048)
   \<and> ResolvedTmpl scenario_env scenario_builder (scenario_msg [big_alert CHR ''c'' 12000])
     = Inr (''{msgtype:markdown,markdown:{title:alerts,text:''
              @ replicate 12000 CHR ''c'' @ ''}}'', 12048)
   \<and> ResolvedTmpl scenario_env scenario_builder
       (scenario_msg [big_alert CHR ''b'' 12000, big_alert CHR ''c'' 12000])
     = Inr (''{msgtype:markdown,markdown:{title:alerts,text:''
              @ replicate 12000 CHR ''b'' @ replicate 12000 CHR ''c'' @ ''}}'', 24048)
   \<and> fst (Buildv2 scenario_env scenario_builder
       (scenario_msg [big_alert CHR ''a'' 12000, big_alert CHR ''b'' 12000,
                      big_alert CHR ''c'' 12000]))
     = Inr [''{msgtype:markdown,markdown:{title:alerts,text:''
              @ replicate 12000 CHR ''a'' @ ''}}'',
            ''{msgtype:markdown,markdown:{title:alerts,text:''
              @ replicate 12000 CHR ''b'' @ replicate 12000 CHR ''c'' @ ''}}'']"
  by (simp add: Buildv2_def Buildv2_loop.simps scenario_simps)

section \<open>Properties of signing and transport\<close>

lemma FormatInt_1000: "FormatInt 1000 = ''1000''"
  by (simp add: FormatInt_def digits10.simps digit_def)

text \<open>The request that both transports build for a URL text and a body.\<close>

lemma SendNotificationV2_cases:
  "SendNotificationV2 e body c tgt =
     (case url_Parse e (URL_String e (TargetURL tgt)) of
        Inl err \<Rightarrow>
          \<lparr>result = Inl (Wrap err ''error building DingTalk request''), posted = None,
           body_drained = False, body_closed = False\<rparr>
      | Inr u \<Rightarrow>
          (case c \<lparr>Method = ''POST'', ReqURL = URL_String e (TargetURL tgt),
                   Header = [(''Content-Type'', ''application/json'')], ReqBody = body\<rparr> of
             Inl err \<Rightarrow>
               \<lparr>result = Inl (Wrap err ''error sending notification to DingTalk''),
                posted = Some \<lparr>Method = ''POST'', ReqURL = URL_String e (TargetURL tgt),
                   Header = [(''Content-Type'', ''application/json'')], ReqBody = body\<rparr>,
                body_drained = False, body_closed = False\<rparr>
           | Inr resp \<Rightarrow>
               \<lparr>result =
                  (if StatusCode resp \<noteq> 200 then
                     Inl (Errorf ''unacceptable response code %d'' (StatusCode resp))
                   else
                     (case json_Decode e (Body resp) of
                        Inl err \<Rightarrow> Inl (Wrap err ''error decoding response from DingTalk'')
                      | Inr robotResp \<Rightarrow> Inr robotResp)),
                posted = Some \<lparr>Method = ''POST'', ReqURL = URL_String e (TargetURL tgt),
                   Header = [(''Content-Type'', ''application/json'')], ReqBody = body\<rparr>,
                body_drained = True, body_closed = True\<rparr>))"
  by (cases "url_Parse e (URL_String e (TargetURL tgt))")
     (simp_all add: SendNotificationV2_def http_NewRequest_def Header_Set_def Let_def)

text \<open>
  \<^verbatim>\<open>SendNotification\<close> is the signing block, \<^verbatim>\<open>json.Marshal\<close>, and then what
  \<^verbatim>\<open>SendNotificationV2\<close> does with the marshalled body and the signed URL.
\<close>

lemma SendNotification_cases:
  "SendNotification e n c tgt =
     (case json_Marshal e n of
        Inl err \<Rightarrow>
          \<lparr>result = Inl (Wrap err ''error encoding DingTalk request''), posted = None,
           body_drained = False, body_closed = False\<rparr>
      | Inr body \<Rightarrow> SendNotificationV2 e body c (tgt\<lparr>TargetURL := signed_targetURL e tgt\<rparr>))"
  by (cases "json_Marshal e n")
     (simp_all add: SendNotification_def SendNotificationV2_def signed_targetURL_def
        Values_Set_def Let_def)

lemma posted_SendNotificationV2:
  "posted (SendNotificationV2 e body c tgt) = Some req \<Longrightarrow>
     req = \<lparr>Method = ''POST'', ReqURL = URL_String e (TargetURL tgt),
            Header = [(''Content-Type'', ''application/json'')], ReqBody = body\<rparr>"
  by (cases "url_Parse e (URL_String e (TargetURL tgt))";
      cases "c \<lparr>Method = ''POST'', ReqURL = URL_String e (TargetURL tgt),
                Header = [(''Content-Type'', ''application/json'')], ReqBody = body\<rparr>")
     (auto simp: SendNotificationV2_cases)

lemma SendNotificationV2_response:
  assumes "posted (SendNotificationV2 e body c tgt) = Some req" and "c req = Inr resp"
  shows "SendNotificationV2 e body c tgt =
           \<lparr>result =
              (if StatusCode resp \<noteq> 200 then
                 Inl (Errorf ''unacceptable response code %d'' (StatusCode resp))
               else
                 (case json_Decode e (Body resp) of
                    Inl err \<Rightarrow> Inl (Wrap err ''error decoding response from DingTalk'')
                  | Inr robotResp \<Rightarrow> Inr robotResp)),
            posted = Some req, body_drained = True, body_closed = True\<rparr>"
proof -
  have req: "req = \<lparr>Method = ''POST'', ReqURL = URL_String e (TargetURL tgt),
            Header = [(''Content-Type'', ''application/json'')], ReqBody = body\<rparr>"
    using assms(1) by (rule posted_SendNotificationV2)
  show ?thesis
    using assms unfolding req
    by (cases "url_Parse e (URL_String e (TargetURL tgt))") (simp_all add: SendNotificationV2_cases)
qed

lemma posted_SendNotification:
  "posted (SendNotification e n c tgt) = Some req \<Longrightarrow>
     \<exists>body. json_Marshal e n = Inr body
        \<and> SendNotification e n c tgt
            = SendNotificationV2 e body c (tgt\<lparr>TargetURL := signed_targetURL e tgt\<rparr>)"
  by (cases "json_Marshal e n") (simp_all add: SendNotification_cases)

lemmas transport_simps =
  SendNotification_cases SendNotificationV2_cases signed_targetURL_def
  scenario_env_def scenario_Marshal_def scenario_target_def scenario_notification_def
  scenario_client_def signed_divide_int_def FormatInt_1000

text \<open>
  Claim C9. \<^verbatim>\<open>SendNotificationV2\<close> posts to the URL of the target as configured: the
  request it hands to the HTTP client is built from \<^verbatim>\<open>target.URL.String()\<close>, and the
  secret of the target has no influence on anything the function does, so no
  \<open>timestamp\<close> or \<open>sign\<close> parameter is ever added; signing is done by
  \<^verbatim>\<open>SendNotification\<close> only.
\<close>

theorem SendNotificationV2_never_signs:
  "(posted (SendNotificationV2 e body httpClient tgt) = Some req \<longrightarrow>
      ReqURL req = URL_String e (TargetURL tgt))
   \<and> SendNotificationV2 e body httpClient (tgt\<lparr>Secret := s\<rparr>)
       = SendNotificationV2 e body httpClient tgt"
proof
  show "posted (SendNotificationV2 e body httpClient tgt) = Some req \<longrightarrow>
      ReqURL req = URL_String e (TargetURL tgt)"
    by (auto dest: posted_SendNotificationV2)
  show "SendNotificationV2 e body httpClient (tgt\<lparr>Secret := s\<rparr>)
       = SendNotificationV2 e body httpClient tgt"
    by (simp add: SendNotificationV2_def)
qed

theorem SendNotificationV2_never_signs_witness:
  "posted (SendNotificationV2 scenario_env ''{}'' (scenario_client 200 ''{errcode:0,errmsg:ok}'')
             (scenario_target\<lparr>Secret := ''abc''\<rparr>))
     = Some \<lparr>Method = ''POST'',
             ReqURL = ''https://oapi.dingtalk.com/robot/send?xyz'',
             Header = [(''Content-Type'', ''application/json'')],
             ReqBody = ''{}''\<rparr>
   \<and> URL_String scenario_env (TargetURL (scenario_target\<lparr>Secret := ''abc''\<rparr>))
     = ''https://oapi.dingtalk.com/robot/send?xyz''
   \<and> SendNotificationV2 scenario_env ''{}'' (scenario_client 200 ''{errcode:0,errmsg:ok}'')
             (scenario_target\<lparr>Secret := ''abc''\<rparr>)
     = SendNotificationV2 scenario_env ''{}'' (scenario_client 200 ''{errcode:0,errmsg:ok}'')
             scenario_target"
proof -
  have h: "posted (SendNotificationV2 scenario_env ''{}'' (scenario_client 200 ''{errcode:0,errmsg:ok}'')
             (scenario_target\<lparr>Secret := ''abc''\<rparr>))
     = Some \<lparr>Method = ''POST'',
             ReqURL = ''https://oapi.dingtalk.com/robot/send?xyz'',
             Header = [(''Content-Type'', ''application/json'')],
             ReqBody = ''{}''\<rparr>"
    by (simp add: transport_simps)
  from SendNotificationV2_never_signs [of scenario_env "''{}''"
         "scenario_client 200 ''{errcode:0,errmsg:ok}''" scenario_target _ "''abc''"] h
  show ?thesis by (simp add: transport_simps)
qed

text \<open>
  Claim C5. With a non-empty secret, the URL that \<^verbatim>\<open>SendNotification\<close> posts to is the
  URL of the target with its query replaced by the encoding of query values \<open>qs\<close> in which
  \<open>timestamp\<close> is exactly the timestamp \<open>t\<close> (the clock in milliseconds, in decimal),
  \<open>sign\<close> is exactly \<open>base64 (HMAC-SHA256 (key = secret, message = t + "\n" + secret))\<close>,
  and every other key has the values it had in the query of the target URL.
\<close>

theorem SendNotification_signed_url:
  assumes "Secret tgt \<noteq> []"
    and "posted (SendNotification e n httpClient tgt) = Some req"
  shows "\<exists>qs. ReqURL req = URL_String e ((TargetURL tgt)\<lparr>RawQuery := Values_Encode e qs\<rparr>)
     \<and> qs ''timestamp'' = Some [FormatInt (time_Now_UnixNano e sdiv 1000000)]
     \<and> qs ''sign'' = Some [base64_EncodeToString e (hmac_sha256 e (Secret tgt)
            (FormatInt (time_Now_UnixNano e sdiv 1000000) @ [CHR 0x0A] @ Secret tgt))]
     \<and> (\<forall>k. k \<noteq> ''timestamp'' \<and> k \<noteq> ''sign'' \<longrightarrow>
            qs k = url_ParseQuery e (RawQuery (TargetURL tgt)) k)"
proof -
  let ?qs = "(url_ParseQuery e (RawQuery (TargetURL tgt)))
                  (''timestamp'' \<mapsto> [FormatInt (time_Now_UnixNano e sdiv 1000000)],
                   ''sign'' \<mapsto> [base64_EncodeToString e (hmac_sha256 e (Secret tgt)
                       (FormatInt (time_Now_UnixNano e sdiv 1000000) @ [CHR 0x0A] @ Secret tgt))])"
  from posted_SendNotification [OF assms(2)] obtain body where
    "SendNotification e n httpClient tgt
       = SendNotificationV2 e body httpClient (tgt\<lparr>TargetURL := signed_targetURL e tgt\<rparr>)"
    by blast
  with assms(2) have
    "posted (SendNotificationV2 e body httpClient (tgt\<lparr>TargetURL := signed_targetURL e tgt\<rparr>))
       = Some req"
    by simp
  then have "ReqURL req = URL_String e (signed_targetURL e tgt)"
    by (auto dest: posted_SendNotificationV2)
  with assms(1)
  have "ReqURL req = URL_String e ((TargetURL tgt)\<lparr>RawQuery := Values_Encode e ?qs\<rparr>)"
    by (simp add: signed_targetURL_def)
  moreover have "?qs ''timestamp'' = Some [FormatInt (time_Now_UnixNano e sdiv 1000000)]"
    by simp
  moreover have "?qs ''sign'' = Some [base64_EncodeToString e (hmac_sha256 e (Secret tgt)
            (FormatInt (time_Now_UnixNano e sdiv 1000000) @ [CHR 0x0A] @ Secret tgt))]"
    by simp
  moreover have "\<forall>k. k \<noteq> ''timestamp'' \<and> k \<noteq> ''sign'' \<longrightarrow>
            ?qs k = url_ParseQuery e (RawQuery (TargetURL tgt)) k"
    by simp
  ultimately show ?thesis by blast
qed

theorem SendNotification_signed_url_witness:
  "Secret (scenario_target\<lparr>Secret := ''abc''\<rparr>) \<noteq> []
   \<and> posted (SendNotification scenario_env scenario_notification
               (scenario_client 200 ''{errcode:0,errmsg:ok}'') (scenario_target\<lparr>Secret := ''abc''\<rparr>))
     = Some \<lparr>Method = ''POST'',
             ReqURL = ''https://oapi.dingtalk.com/robot/send?access_token=xyz&sign=base64(hmac(abc,1000''
                        @ [CHR 0x0A] @ ''abc))&timestamp=1000&'',
             Header = [(''Content-Type'', ''application/json'')],
             ReqBody = ''{msgtype:markdown,markdown:{title:alerts,text:aaa}}''\<rparr>
   \<and> (\<exists>qs. qs ''timestamp'' = Some [''1000'']
          \<and> qs ''sign'' = Some [base64_EncodeToString scenario_env
                 (hmac_sha256 scenario_env ''abc'' (''1000'' @ [CHR 0x0A] @ ''abc''))]
          \<and> qs ''access_token'' = Some [''xyz''])"
proof -
  let ?T = "scenario_target\<lparr>Secret := ''abc''\<rparr>"
  let ?R = "\<lparr>Method = ''POST'',
             ReqURL = ''https://oapi.dingtalk.com/robot/send?access_token=xyz&sign=base64(hmac(abc,1000''
                        @ [CHR 0x0A] @ ''abc))&timestamp=1000&'',
             Header = [(''Content-Type'', ''application/json'')],
             ReqBody = ''{msgtype:markdown,markdown:{title:alerts,text:aaa}}''\<rparr>"
  have h1: "Secret ?T \<noteq> []"
    by (simp add: scenario_target_def)
  have h2: "posted (SendNotification scenario_env scenario_notification
               (scenario_client 200 ''{errcode:0,errmsg:ok}'') ?T) = Some ?R"
    by (simp add: transport_simps)
  have t: "FormatInt (time_Now_UnixNano scenario_env sdiv 1000000) = ''1000''"
    by (simp add: transport_simps)
  have s: "Secret ?T = ''abc''"
    by simp
  have q: "url_ParseQuery scenario_env (RawQuery (TargetURL ?T)) ''access_token'' = Some [''xyz'']"
    by (simp add: scenario_env_def scenario_target_def)
  have ne: "''access_token'' \<noteq> ''timestamp'' \<and> ''access_token'' \<noteq> ''sign''"
    by simp
  from SendNotification_signed_url [OF h1 h2]
  have "\<exists>qs. qs ''timestamp'' = Some [''1000'']
          \<and> qs ''sign'' = Some [base64_EncodeToString scenario_env
                 (hmac_sha256 scenario_env ''abc'' (''1000'' @ [CHR 0x0A] @ ''abc''))]
          \<and> qs ''access_token'' = Some [''xyz'']"
  proof (elim exE conjE)
    fix qs
    assume a: "qs ''timestamp'' = Some [FormatInt (time_Now_UnixNano scenario_env sdiv 1000000)]"
      and b: "qs ''sign'' = Some [base64_EncodeToString scenario_env (hmac_sha256 scenario_env
              (Secret ?T) (FormatInt (time_Now_UnixNano scenario_env sdiv 1000000)
                 @ [CHR 0x0A] @ Secret ?T))]"
      and c: "\<forall>k. k \<noteq> ''timestamp'' \<and> k \<noteq> ''sign'' \<longrightarrow>
              qs k = url_ParseQuery scenario_env (RawQuery (TargetURL ?T)) k"
    from c [rule_format, OF ne] q have c': "qs ''access_token'' = Some [''xyz'']"
      by (simp only:)
    from a have a': "qs ''timestamp'' = Some [''1000'']"
      by (simp only: t)
    from b have b': "qs ''sign'' = Some [base64_EncodeToString scenario_env
                 (hmac_sha256 scenario_env ''abc'' (''1000'' @ [CHR 0x0A] @ ''abc''))]"
      by (simp only: t s)
    show ?thesis
      by (rule exI [of _ qs]) (intro conjI a' b' c')
  qed
  with h1 h2 show ?thesis by (intro conjI)
qed

text \<open>
  The instance of the specification: secret \<open>abc\<close>, a clock reading of 1000 milliseconds,
  any HMAC and base64 functions.
\<close>

lemma SendNotification_sign_abc_1000:
  assumes "Secret tgt = ''abc''" and "time_Now_UnixNano e sdiv 1000000 = 1000"
    and "posted (SendNotification e n c tgt) = Some req"
  shows "ReqURL req = URL_String e ((TargetURL tgt)\<lparr>RawQuery := Values_Encode e
           ((url_ParseQuery e (RawQuery (TargetURL tgt)))
              (''timestamp'' \<mapsto> [''1000''],
               ''sign'' \<mapsto> [base64_EncodeToString e
                              (hmac_sha256 e ''abc'' (''1000'' @ [CHR 0x0A] @ ''abc''))]))\<rparr>)"
proof -
  from posted_SendNotification [OF assms(3)] obtain body where
    "SendNotification e n c tgt
       = SendNotificationV2 e body c (tgt\<lparr>TargetURL := signed_targetURL e tgt\<rparr>)"
    by blast
  with assms(3) have
    "posted (SendNotificationV2 e body c (tgt\<lparr>TargetURL := signed_targetURL e tgt\<rparr>)) = Some req"
    by simp
  then have "ReqURL req = URL_String e (signed_targetURL e tgt)"
    by (auto dest: posted_SendNotificationV2)
  then show ?thesis
    using assms(1,2) by (simp add: signed_targetURL_def FormatInt_1000)
qed

text \<open>
  Claim C6. With an empty secret, \<^verbatim>\<open>SendNotification\<close> posts to the URL of the target
  unmodified: the request is built from \<^verbatim>\<open>target.URL.String()\<close>, with no \<open>timestamp\<close>
  or \<open>sign\<close> parameter added.
\<close>

theorem SendNotification_no_secret:
  assumes "Secret tgt = []"
    and "posted (SendNotification e n httpClient tgt) = Some req"
  shows "ReqURL req = URL_String e (TargetURL tgt)"
proof -
  from posted_SendNotification [OF assms(2)] obtain body where
    "SendNotification e n httpClient tgt
       = SendNotificationV2 e body httpClient (tgt\<lparr>TargetURL := signed_targetURL e tgt\<rparr>)"
    by blast
  with assms(2) have
    "posted (SendNotificationV2 e body httpClient (tgt\<lparr>TargetURL := signed_targetURL e tgt\<rparr>))
       = Some req"
    by simp
  then have "ReqURL req = URL_String e (signed_targetURL e tgt)"
    by (auto dest: posted_SendNotificationV2)
  with assms(1) show ?thesis
    by (simp add: signed_targetURL_def)
qed

theorem SendNotification_no_secret_witness:
  "Secret scenario_target = []
   \<and> posted (SendNotification scenario_env scenario_notification
               (scenario_client 200 ''{errcode:0,errmsg:ok}'') scenario_target)
     = Some \<lparr>Method = ''POST'',
             ReqURL = ''https://oapi.dingtalk.com/robot/send?xyz'',
             Header = [(''Content-Type'', ''application/json'')],
             ReqBody = ''{msgtype:markdown,markdown:{title:alerts,text:aaa}}''\<rparr>
   \<and> URL_String scenario_env (TargetURL scenario_target) = ''https://oapi.dingtalk.com/robot/send?xyz''"
proof -
  have h1: "Secret scenario_target = []"
    by (simp add: scenario_target_def)
  have h2: "posted (SendNotification scenario_env scenario_notification
               (scenario_client 200 ''{errcode:0,errmsg:ok}'') scenario_target)
     = Some \<lparr>Method = ''POST'',
             ReqURL = ''https://oapi.dingtalk.com/robot/send?xyz'',
             Header = [(''Content-Type'', ''application/json'')],
             ReqBody = ''{msgtype:markdown,markdown:{title:alerts,text:aaa}}''\<rparr>"
    by (simp add: transport_simps)
  from SendNotification_no_secret [OF h1 h2] h1 h2 show ?thesis by simp
qed

text \<open>
  Claim C7. When the HTTP client answers the request of \<^verbatim>\<open>SendNotification\<close> or of
  \<^verbatim>\<open>SendNotificationV2\<close> with a response: for a status code other than 200 the
  function returns the error carrying that status code and no response value, whatever
  the body is; for status code 200 it returns the response decoded from the body, or the
  decoding error wrapped; in both cases the response body has been drained and closed.
\<close>

theorem delivery_status_check:
  "(posted (SendNotification e n httpClient tgt) = Some req \<and> httpClient req = Inr resp \<longrightarrow>
      (StatusCode resp \<noteq> 200 \<longrightarrow>
         result (SendNotification e n httpClient tgt)
           = Inl (Errorf ''unacceptable response code %d'' (StatusCode resp)))
    \<and> (StatusCode resp = 200 \<longrightarrow>
         result (SendNotification e n httpClient tgt)
           = (case json_Decode e (Body resp) of
                Inl err \<Rightarrow> Inl (Wrap err ''error decoding response from DingTalk'')
              | Inr robotResp \<Rightarrow> Inr robotResp))
    \<and> body_drained (SendNotification e n httpClient tgt)
    \<and> body_closed (SendNotification e n httpClient tgt))
   \<and> (posted (SendNotificationV2 e body httpClient tgt) = Some req2
        \<and> httpClient req2 = Inr resp2 \<longrightarrow>
      (StatusCode resp2 \<noteq> 200 \<longrightarrow>
         result (SendNotificationV2 e body httpClient tgt)
           = Inl (Errorf ''unacceptable response code %d'' (StatusCode resp2)))
    \<and> (StatusCode resp2 = 200 \<longrightarrow>
         result (SendNotificationV2 e body httpClient tgt)
           = (case json_Decode e (Body resp2) of
                Inl err \<Rightarrow> Inl (Wrap err ''error decoding response from DingTalk'')
              | Inr robotResp \<Rightarrow> Inr robotResp))
    \<and> body_drained (SendNotificationV2 e body httpClient tgt)
    \<and> body_closed (SendNotificationV2 e body httpClient tgt))"
proof (intro conjI impI; (elim conjE)?)
  assume p: "posted (SendNotification e n httpClient tgt) = Some req"
    and c: "httpClient req = Inr resp"
  from posted_SendNotification [OF p] obtain b where b: "SendNotification e n httpClient tgt
            = SendNotificationV2 e b httpClient (tgt\<lparr>TargetURL := signed_targetURL e tgt\<rparr>)"
    by blast
  note o = SendNotificationV2_response [OF p [unfolded b] c, folded b]
  {
    assume "StatusCode resp \<noteq> 200"
    then show "result (SendNotification e n httpClient tgt)
           = Inl (Errorf ''unacceptable response code %d'' (StatusCode resp))"
      by (simp add: o)
  }
  {
    assume "StatusCode resp = 200"
    then show "result (SendNotification e n httpClient tgt)
           = (case json_Decode e (Body resp) of
                Inl err \<Rightarrow> Inl (Wrap err ''error decoding response from DingTalk'')
              | Inr robotResp \<Rightarrow> Inr robotResp)"
      by (simp add: o)
  }
  show "body_drained (SendNotification e n httpClient tgt)" by (simp add: o)
  show "body_closed (SendNotification e n httpClient tgt)" by (simp add: o)
next
  assume p: "posted (SendNotificationV2 e body httpClient tgt) = Some req2"
    and c: "httpClient req2 = Inr resp2"
  note o = SendNotificationV2_response [OF p c]
  {
    assume "StatusCode resp2 \<noteq> 200"
    then show "result (SendNotificationV2 e body httpClient tgt)
           = Inl (Errorf ''unacceptable response code %d'' (StatusCode resp2))"
      by (simp add: o)
  }
  {
    assume "StatusCode resp2 = 200"
    then show "result (SendNotificationV2 e body httpClient tgt)
           = (case json_Decode e (Body resp2) of
                Inl err \<Rightarrow> Inl (Wrap err ''error decoding response from DingTalk'')
              | Inr robotResp \<Rightarrow> Inr robotResp)"
      by (simp add: o)
  }
  show "body_drained (SendNotificationV2 e body httpClient tgt)" by (simp add: o)
  show "body_closed (SendNotificationV2 e body httpClient tgt)" by (simp add: o)
qed

theorem delivery_status_check_witness:
  "result (SendNotification scenario_env scenario_notification
            (scenario_client 500 ''{errcode:0,errmsg:ok}'') scenario_target)
     = Inl (Errorf ''unacceptable response code %d'' 500)
   \<and> body_drained (SendNotification scenario_env scenario_notification
            (scenario_client 500 ''{errcode:0,errmsg:ok}'') scenario_target)
   \<and> body_closed (SendNotification scenario_env scenario_notification
            (scenario_client 500 ''{errcode:0,errmsg:ok}'') scenario_target)
   \<and> result (SendNotificationV2 scenario_env ''{}''
            (scenario_client 200 ''{errcode:0,errmsg:ok}'') scenario_target)
     = Inr \<lparr>ErrorCode = 0, ErrorMessage = ''ok''\<rparr>
   \<and> body_drained (SendNotificationV2 scenario_env ''{}''
            (scenario_client 200 ''{errcode:0,errmsg:ok}'') scenario_target)
   \<and> body_closed (SendNotificationV2 scenario_env ''{}''
            (scenario_client 200 ''{errcode:0,errmsg:ok}'') scenario_target)"
proof -
  let ?R1 = "\<lparr>Method = ''POST'',
             ReqURL = ''https://oapi.dingtalk.com/robot/send?xyz'',
             Header = [(''Content-Type'', ''application/json'')],
             ReqBody = ''{msgtype:markdown,markdown:{title:alerts,text:aaa}}''\<rparr>"
  let ?R2 = "\<lparr>Method = ''POST'',
             ReqURL = ''https://oapi.dingtalk.com/robot/send?xyz'',
             Header = [(''Content-Type'', ''application/json'')],
             ReqBody = ''{}''\<rparr>"
  have p1: "posted (SendNotification scenario_env scenario_notification
            (scenario_client 500 ''{errcode:0,errmsg:ok}'') scenario_target) = Some ?R1"
    by (simp add: transport_simps)
  have c1: "scenario_client 500 ''{errcode:0,errmsg:ok}'' ?R1
              = Inr \<lparr>StatusCode = 500, Body = ''{errcode:0,errmsg:ok}''\<rparr>"
    by (simp add: scenario_client_def)
  have p2: "posted (SendNotificationV2 scenario_env ''{}''
            (scenario_client 200 ''{errcode:0,errmsg:ok}'') scenario_target) = Some ?R2"
    by (simp add: transport_simps)
  have c2: "scenario_client 200 ''{errcode:0,errmsg:ok}'' ?R2
              = Inr \<lparr>StatusCode = 200, Body = ''{errcode:0,errmsg:ok}''\<rparr>"
    by (simp add: scenario_client_def)
  have d: "json_Decode scenario_env ''{errcode:0,errmsg:ok}''
             = Inr \<lparr>ErrorCode = 0, ErrorMessage = ''ok''\<rparr>"
    by (simp add: scenario_env_def)
  from delivery_status_check [of scenario_env scenario_notification
         "scenario_client 500 ''{errcode:0,errmsg:ok}''" scenario_target ?R1
         "\<lparr>StatusCode = 500, Body = ''{errcode:0,errmsg:ok}''\<rparr>"]
       p1 c1
  have a: "result (SendNotification scenario_env scenario_notification
            (scenario_client 500 ''{errcode:0,errmsg:ok}'') scenario_target)
     = Inl (Errorf ''unacceptable response code %d'' 500)
   \<and> body_drained (SendNotification scenario_env scenario_notification
            (scenario_client 500 ''{errcode:0,errmsg:ok}'') scenario_target)
   \<and> body_closed (SendNotification scenario_env scenario_notification
            (scenario_client 500 ''{errcode:0,errmsg:ok}'') scenario_target)"
    by simp
  from delivery_status_check [of scenario_env _ "scenario_client 200 ''{errcode:0,errmsg:ok}''"
         scenario_target _ _ "''{}''" ?R2 "\<lparr>StatusCode = 200, Body = ''{errcode:0,errmsg:ok}''\<rparr>"]
       p2 c2 d
  have b: "result (SendNotificationV2 scenario_env ''{}''
            (scenario_client 200 ''{errcode:0,errmsg:ok}'') scenario_target)
     = Inr \<lparr>ErrorCode = 0, ErrorMessage = ''ok''\<rparr>
   \<and> body_drained (SendNotificationV2 scenario_env ''{}''
            (scenario_client 200 ''{errcode:0,errmsg:ok}'') scenario_target)
   \<and> body_closed (SendNotificationV2 scenario_env ''{}''
            (scenario_client 200 ''{errcode:0,errmsg:ok}'') scenario_target)"
    by simp
  from a b show ?thesis by simp
qed

section \<open>The message after splitting\<close>

text \<open>Every candidate range is a non-empty range within the alerts.\<close>

lemma candidate_ranges_bounds:
  "lastIdx < index \<Longrightarrow>
   (i, j) \<in> set (candidate_ranges e r m alerts index lastIdx lastDat) \<Longrightarrow>
   i < j \<and> j \<le> length alerts"
proof (induction e r m alerts index lastIdx lastDat rule: candidate_ranges.induct)
  case (1 e r m alerts index lastIdx lastDat)
  show ?case
  proof (cases "index \<le> length alerts")
    case False
    with "1.prems" show ?thesis
      by (simp add: candidate_ranges.simps [of e r m alerts index])
  next
    case True
    note le = this
    show ?thesis
    proof (cases "ResolvedTmpl e r (m\<lparr>Alerts := slice alerts lastIdx index\<rparr>)")
      case (Inl err)
      with le "1.prems" show ?thesis
        by (simp add: candidate_ranges.simps [of e r m alerts index])
    next
      case (Inr dl)
      obtain data l where dl: "dl = (data, l)" by (cases dl)
      show ?thesis
      proof (cases "l < MAX_MESSAGE_LENGTH")
        case True
        with le Inr dl "1.prems" "1.IH"(1) [OF le Inr dl [symmetric] True] show ?thesis
          by (auto simp: candidate_ranges.simps [of e r m alerts index])
      next
        case False
        note big = this
        show ?thesis
        proof (cases "length lastDat \<noteq> 0")
          case True
          with le Inr dl big "1.prems" "1.IH"(2) [OF le Inr dl [symmetric] big True] show ?thesis
            by (auto simp: candidate_ranges.simps [of e r m alerts index])
        next
          case False
          with le Inr dl big "1.prems" "1.IH"(3) [OF le Inr dl [symmetric] big False] show ?thesis
            by (auto simp: candidate_ranges.simps [of e r m alerts index])
        qed
      qed
    qed
  qed
qed


text \<open>The loop changes nothing of the message but its \<open>Alerts\<close> field.\<close>

lemma frame_update:
  "(m' :: WebhookMessage)\<lparr>Alerts := Alerts m\<rparr> = m \<Longrightarrow> m'\<lparr>Alerts := X\<rparr> = m\<lparr>Alerts := X\<rparr>"
  by (cases m; cases m') auto

lemma Buildv2_loop_msg:
  "(msg s)\<lparr>Alerts := Alerts m\<rparr> = m \<Longrightarrow>
   msg (snd (Buildv2_loop e r alerts index s)) =
     (case candidate_ranges e r m alerts index (lastIndex s) (lastData s) of
        [] \<Rightarrow> msg s
      | c # cs \<Rightarrow> m\<lparr>Alerts := slice alerts (fst (last (c # cs))) (snd (last (c # cs)))\<rparr>)"
proof (induction e r alerts index s rule: Buildv2_loop.induct)
  case (1 e r alerts index s)
  show ?case
  proof (cases "index \<le> length alerts")
    case False
    then show ?thesis
      by (simp add: Buildv2_loop.simps [of e r alerts index]
            candidate_ranges.simps [of e r m alerts index])
  next
    case True
    note le = this
    let ?m' = "(msg s)\<lparr>Alerts := slice alerts (lastIndex s) index\<rparr>"
    let ?s' = "s\<lparr>msg := ?m'\<rparr>"
    have m': "?m' = m\<lparr>Alerts := slice alerts (lastIndex s) index\<rparr>"
      using "1.prems" by (rule frame_update)
    have fr: "?m'\<lparr>Alerts := Alerts m\<rparr> = m"
      by (simp add: m')
    show ?thesis
    proof (cases "ResolvedTmpl e r ?m'")
      case (Inl err)
      with le show ?thesis
        by (simp add: Buildv2_loop.simps [of e r alerts index]
              candidate_ranges.simps [of e r m alerts index] m' [symmetric])
    next
      case (Inr dl)
      obtain data l where dl: "dl = (data, l)" by (cases dl)
      show ?thesis
      proof (cases "l < MAX_MESSAGE_LENGTH")
        case True
        have "msg (snd (Buildv2_loop e r alerts (index + 1) (?s'\<lparr>lastData := data\<rparr>))) =
           (case candidate_ranges e r m alerts (index + 1) (lastIndex s) data of
              [] \<Rightarrow> ?m'
            | c # cs \<Rightarrow> m\<lparr>Alerts := slice alerts (fst (last (c # cs))) (snd (last (c # cs)))\<rparr>)"
          using "1.IH"(1) [OF le refl refl Inr dl [symmetric] True] fr by (simp split: list.split)
        with le Inr dl True show ?thesis
          by (simp add: Buildv2_loop.simps [of e r alerts index]
                candidate_ranges.simps [of e r m alerts index] m' split: list.split)
      next
        case False
        note big = this
        show ?thesis
        proof (cases "length (lastData s) \<noteq> 0")
          case True
          have ne: "length (lastData ?s') \<noteq> 0" using True by simp
          have "msg (snd (Buildv2_loop e r alerts (index + 1)
                   (?s'\<lparr>sendDatas := sendDatas ?s' @ [lastData ?s'],
                        lastIndex := index - 1, lastData := []\<rparr>))) =
           (case candidate_ranges e r m alerts (index + 1) (index - 1) [] of
              [] \<Rightarrow> ?m'
            | c # cs \<Rightarrow> m\<lparr>Alerts := slice alerts (fst (last (c # cs))) (snd (last (c # cs)))\<rparr>)"
            using "1.IH"(2) [OF le refl refl Inr dl [symmetric] big ne] fr by (simp split: list.split)
          with le Inr dl big True show ?thesis
            by (simp add: Buildv2_loop.simps [of e r alerts index]
                  candidate_ranges.simps [of e r m alerts index] m' split: list.split)
        next
          case False
          have e0: "\<not> length (lastData ?s') \<noteq> 0" using False by simp
          have "msg (snd (Buildv2_loop e r alerts (index + 1)
                   (?s'\<lparr>sendDatas := sendDatas ?s' @ [data], lastIndex := index\<rparr>))) =
           (case candidate_ranges e r m alerts (index + 1) index (lastData s) of
              [] \<Rightarrow> ?m'
            | c # cs \<Rightarrow> m\<lparr>Alerts := slice alerts (fst (last (c # cs))) (snd (last (c # cs)))\<rparr>)"
            using "1.IH"(3) [OF le refl refl Inr dl [symmetric] big e0] fr by (simp split: list.split)
          with le Inr dl big False show ?thesis
            by (simp add: Buildv2_loop.simps [of e r alerts index]
                  candidate_ranges.simps [of e r m alerts index] m' split: list.split)
        qed
      qed
    qed
  qed
qed


lemma Buildv2_split_msg:
  assumes "ResolvedTmpl e r m = Inr (data, l)" and "20000 \<le> l"
  shows "snd (Buildv2 e r m) =
           msg (snd (Buildv2_loop e r (Alerts m) 1
                       \<lparr>msg = m, sendDatas = [], lastIndex = 0, lastData = []\<rparr>))"
  using assms
  by (simp add: Buildv2_def MAX_MESSAGE_LENGTH_def Let_def split: prod.split option.split)

text \<open>A candidate range is the whole sequence only when it starts at 0 and ends at its length.\<close>

lemma slice_eq_self:
  assumes "i < j" and "j \<le> length xs"
  shows "slice xs i j = xs \<longleftrightarrow> i = 0 \<and> j = length xs"
proof
  assume eq: "slice xs i j = xs"
  have "length (slice xs i j) = j - i"
    using assms by (simp add: slice_def)
  with eq have "j - i = length xs" by simp
  with assms show "i = 0 \<and> j = length xs" by arith
next
  assume "i = 0 \<and> j = length xs"
  then show "slice xs i j = xs" by (simp add: slice_def)
qed

text \<open>
  Claim C10 says that on the splitting path \<^verbatim>\<open>m.Alerts\<close> ends as the last candidate
  range rather than as the original alert sequence. As stated this does not hold: the
  last candidate can be the whole sequence. Two alerts of 12000 bytes each: the full
  rendering (24048 bytes) takes the splitting path, the candidates are \<^verbatim>\<open>alerts[0:1]\<close>
  and \<^verbatim>\<open>alerts[0:2]\<close>, and on return \<^verbatim>\<open>m.Alerts\<close> is the original sequence.
\<close>

theorem Buildv2_alerts_unchanged_counterexample:
  "ResolvedTmpl scenario_env scenario_builder
       (scenario_msg [big_alert CHR ''a'' 12000, big_alert CHR ''b'' 12000])
     = Inr (''{msgtype:markdown,markdown:{title:alerts,text:''
              @ replicate 12000 CHR ''a'' @ replicate 12000 CHR ''b'' @ ''}}'', 24048)
   \<and> (20000::nat) \<le> 24048
   \<and> candidate_ranges scenario_env scenario_builder
       (scenario_msg [big_alert CHR ''a'' 12000, big_alert CHR ''b'' 12000])
       [big_alert CHR ''a'' 12000, big_alert CHR ''b'' 12000] 1 0 []
     = [(0, 1), (0, 2)]
   \<and> Alerts (snd (Buildv2 scenario_env scenario_builder
       (scenario_msg [big_alert CHR ''a'' 12000, big_alert CHR ''b'' 12000])))
     = Alerts (scenario_msg [big_alert CHR ''a'' 12000, big_alert CHR ''b'' 12000])"
  by (simp add: Buildv2_def Buildv2_loop.simps candidate_ranges.simps scenario_simps)

text \<open>
  Claim C10, amended. On the splitting path (the full rendering has at least 20000 bytes)
  \<^verbatim>\<open>Buildv2\<close> does not restore \<^verbatim>\<open>m.Alerts\<close>: when it returns, with batches or with
  an error, the message differs from the one it was given at most in its \<open>Alerts\<close>
  field, which holds the last candidate range \<^verbatim>\<open>alerts[i:j]\<close> that the loop assigned and
  rendered, a non-empty range of the alerts. That range is the original sequence exactly
  when \<open>i = 0\<close> and \<open>j = len(alerts)\<close>, and a proper sub-range otherwise. A message
  without alerts has no candidate and is left as it was.
\<close>

theorem Buildv2_leaves_last_candidate:
  assumes "ResolvedTmpl e r m = Inr (data, l)" and "20000 \<le> l"
  shows "(Alerts m = [] \<longrightarrow> snd (Buildv2 e r m) = m)
       \<and> (Alerts m \<noteq> [] \<longrightarrow>
           (\<exists>i j. candidate_ranges e r m (Alerts m) 1 0 [] \<noteq> []
                \<and> last (candidate_ranges e r m (Alerts m) 1 0 []) = (i, j)
                \<and> i < j \<and> j \<le> length (Alerts m)
                \<and> snd (Buildv2 e r m) = m\<lparr>Alerts := slice (Alerts m) i j\<rparr>
                \<and> (Alerts (snd (Buildv2 e r m)) = Alerts m
                     \<longleftrightarrow> i = 0 \<and> j = length (Alerts m))))"
proof -
  let ?cs = "candidate_ranges e r m (Alerts m) 1 0 []"
  have loop: "snd (Buildv2 e r m) =
      (case ?cs of
         [] \<Rightarrow> m
       | c # cs \<Rightarrow> m\<lparr>Alerts := slice (Alerts m) (fst (last (c # cs))) (snd (last (c # cs)))\<rparr>)"
    using Buildv2_loop_msg [where s = "\<lparr>msg = m, sendDatas = [], lastIndex = 0, lastData = []\<rparr>"
            and m = m and e = e and r = r and alerts = "Alerts m" and index = 1]
    by (simp add: Buildv2_split_msg [OF assms] split: list.split)
  have empty: "Alerts m = [] \<Longrightarrow> ?cs = []"
    by (simp add: candidate_ranges.simps [of e r m _ "Suc 0"])
  have nonempty: "Alerts m \<noteq> [] \<Longrightarrow> ?cs \<noteq> []"
    by (cases "Alerts m") (simp_all add: candidate_ranges.simps [of e r m _ "Suc 0"])
  show ?thesis
  proof (intro conjI impI)
    assume "Alerts m = []"
    with loop empty show "snd (Buildv2 e r m) = m" by simp
  next
    assume ne: "Alerts m \<noteq> []"
    obtain i j where ij: "last ?cs = (i, j)" by (cases "last ?cs")
    from nonempty [OF ne] ij have "(i, j) \<in> set ?cs"
      by (metis last_in_set)
    then have b: "i < j \<and> j \<le> length (Alerts m)"
      by (rule candidate_ranges_bounds [rotated]) simp
    from nonempty [OF ne] ij loop
    have res: "snd (Buildv2 e r m) = m\<lparr>Alerts := slice (Alerts m) i j\<rparr>"
      by (cases ?cs) simp_all
    from b have same: "Alerts (snd (Buildv2 e r m)) = Alerts m
                     \<longleftrightarrow> i = 0 \<and> j = length (Alerts m)"
      by (simp add: res slice_eq_self)
    from nonempty [OF ne] ij b res same
    show "\<exists>i j. ?cs \<noteq> [] \<and> last ?cs = (i, j) \<and> i < j \<and> j \<le> length (Alerts m)
                \<and> snd (Buildv2 e r m) = m\<lparr>Alerts := slice (Alerts m) i j\<rparr>
                \<and> (Alerts (snd (Buildv2 e r m)) = Alerts m
                     \<longleftrightarrow> i = 0 \<and> j = length (Alerts m))"
      by blast
  qed
qed

theorem Buildv2_leaves_last_candidate_witness:
  "ResolvedTmpl scenario_env scenario_builder
       (scenario_msg [big_alert CHR ''a'' 7000, big_alert CHR ''b'' 7000,
                      big_alert CHR ''c'' 7000, big_alert CHR ''d'' 7000])
     = Inr (''{msgtype:markdown,markdown:{title:alerts,text:''
              @ replicate 7000 CHR ''a'' @ replicate 7000 CHR ''b''
              @ replicate 7000 CHR ''c'' @ replicate 7000 CHR ''d'' @ ''}}'', 28048)
   \<and> candidate_ranges scenario_env scenario_builder
       (scenario_msg [big_alert CHR ''a'' 7000, big_alert CHR ''b'' 7000,
                      big_alert CHR ''c'' 7000, big_alert CHR ''d'' 7000])
       [big_alert CHR ''a'' 7000, big_alert CHR ''b'' 7000,
        big_alert CHR ''c'' 7000, big_alert CHR ''d'' 7000] 1 0 []
     = [(0, 1), (0, 2), (0, 3), (2, 4)]
   \<and> snd (Buildv2 scenario_env scenario_builder
       (scenario_msg [big_alert CHR ''a'' 7000, big_alert CHR ''b'' 7000,
                      big_alert CHR ''c'' 7000, big_alert CHR ''d'' 7000]))
     = scenario_msg [big_alert CHR ''c'' 7000, big_alert CHR ''d'' 7000]"
proof -
  let ?as = "[big_alert CHR ''a'' 7000, big_alert CHR ''b'' 7000,
              big_alert CHR ''c'' 7000, big_alert CHR ''d'' 7000]"
  let ?m = "scenario_msg ?as"
  have h1: "ResolvedTmpl scenario_env scenario_builder ?m
     = Inr (''{msgtype:markdown,markdown:{title:alerts,text:''
              @ replicate 7000 CHR ''a'' @ replicate 7000 CHR ''b''
              @ replicate 7000 CHR ''c'' @ replicate 7000 CHR ''d'' @ ''}}'', 28048)"
    by (simp add: scenario_simps)
  have h2: "(20000::nat) \<le> 28048"
    by simp
  have al: "Alerts ?m = ?as"
    by (simp add: scenario_msg_def)
  have cs: "candidate_ranges scenario_env scenario_builder ?m ?as 1 0 []
              = [(0, 1), (0, 2), (0, 3), (2, 4)]"
    by (simp add: candidate_ranges.simps scenario_simps)
  have ne: "Alerts ?m \<noteq> []"
    by (simp add: scenario_msg_def)
  from Buildv2_leaves_last_candidate [OF h1 h2]
  have "Alerts ?m \<noteq> [] \<longrightarrow>
           (\<exists>i j. candidate_ranges scenario_env scenario_builder ?m (Alerts ?m) 1 0 [] \<noteq> []
                \<and> last (candidate_ranges scenario_env scenario_builder ?m (Alerts ?m) 1 0 []) = (i, j)
                \<and> i < j \<and> j \<le> length (Alerts ?m)
                \<and> snd (Buildv2 scenario_env scenario_builder ?m) = ?m\<lparr>Alerts := slice (Alerts ?m) i j\<rparr>
                \<and> (Alerts (snd (Buildv2 scenario_env scenario_builder ?m)) = Alerts ?m
                     \<longleftrightarrow> i = 0 \<and> j = length (Alerts ?m)))"
    by (rule conjunct2)
  from this [rule_format, OF ne] obtain i j where
    l: "last (candidate_ranges scenario_env scenario_builder ?m (Alerts ?m) 1 0 []) = (i, j)"
    and sb: "snd (Buildv2 scenario_env scenario_builder ?m) = ?m\<lparr>Alerts := slice (Alerts ?m) i j\<rparr>"
    by auto
  from l have "i = 2 \<and> j = 4"
    unfolding al cs by simp
  with sb have "snd (Buildv2 scenario_env scenario_builder ?m) = ?m\<lparr>Alerts := slice (Alerts ?m) 2 4\<rparr>"
    by simp
  also have "?m\<lparr>Alerts := slice (Alerts ?m) 2 4\<rparr>
               = scenario_msg [big_alert CHR ''c'' 7000, big_alert CHR ''d'' 7000]"
    by (simp add: scenario_msg_def slice_def)
  finally show ?thesis
    using h1 cs by (intro conjI)
qed

end
